theory Spec2Isabelle
  imports Main "HOL-Library.Word"
begin

unbundle bit_operations_syntax

section \<open>The request/reply socket of src/patterns/reqrep/req.c\<close>

text \<open>
  A shallow embedding of \<^verbatim>\<open>req.c\<close>. Every function of the file that changes
  \<^verbatim>\<open>struct sp_req\<close> takes the structure and returns the updated one. What the
  collaborators answer (the allocator, the raw socket, the random source) is an explicit
  argument of the call that asks them. A failed assertion ends the process: it is the
  left summand of the result.
\<close>

subsection \<open>Types\<close>

type_synonym byte = "8 word"
type_synonym uint32_t = "32 word"

text \<open>
  A C \<^verbatim>\<open>int\<close>: 32 bits in two's complement, read by \<open>sint\<close>. A
  \<^verbatim>\<open>size_t\<close> is a \<open>nat\<close>: every length in the file is the length of a buffer
  that exists, or four more, passed to an allocation that succeeded.
\<close>

type_synonym c_int = "32 word"

text \<open>
  The error numbers the file names, and any other one a collaborator may hand back.
  A function returning \<^verbatim>\<open>int\<close> returns \<^verbatim>\<open>0\<close> (\<open>OK\<close>) or
  \<^verbatim>\<open>-errno\<close> (\<open>ERR errno\<close>).
\<close>

datatype errno = EAGAIN | EFSM | EINVAL | ENOPROTOOPT | EOTHER nat

datatype rc = OK | ERR errno

text \<open>The three assertion macros of \<^verbatim>\<open>utils/err.h\<close> used by the file.\<close>

datatype abort = alloc_assert_failed | errnum_assert_failed rc | sp_assert_failed

text \<open>
  \<^verbatim>\<open>struct sp_sockbase_timer\<close>: the one-shot timer is stopped, or armed with a
  timeout in milliseconds (the callback is always \<^verbatim>\<open>sp_req_resend_routine\<close>).
\<close>

datatype sp_sockbase_timer = Stopped | Armed c_int

text \<open>
  \<^verbatim>\<open>struct sp_xreq\<close>, the raw socket underneath. All the file does with it is
  hand buffers to its send path; \<open>dispatched\<close> lists the (pointer, length) pairs
  handed over so far, oldest first.
\<close>

record sp_xreq =
  dispatched :: "(byte list option \<times> nat) list"

text \<open>\<^verbatim>\<open>struct sp_req\<close>. A null \<^verbatim>\<open>request\<close> pointer is \<open>None\<close>.\<close>

record sp_req =
  xreq :: sp_xreq
  reqid :: uint32_t
  flags :: uint32_t
  requestlen :: nat
  request :: "byte list option"
  resend_ivl :: c_int
  resend_timer :: sp_sockbase_timer

definition SP_REQ_DEFAULT_RESEND_IVL :: c_int where
  "SP_REQ_DEFAULT_RESEND_IVL = 60000"

definition SP_REQ_INPROGRESS :: uint32_t where
  "SP_REQ_INPROGRESS = 1"

definition sizeof_uint32_t :: nat where
  "sizeof_uint32_t = 4"

definition sizeof_int :: nat where
  "sizeof_int = 4"

subsection \<open>Collaborators\<close>

text \<open>
  \<^verbatim>\<open>memcpy (dst + off, src, n)\<close> on byte buffers: bytes \<open>off ..< off + n\<close> of
  \<open>dst\<close> become the first \<open>n\<close> bytes of \<open>src\<close>, the others stay.
\<close>

definition memcpy :: "byte list \<Rightarrow> nat \<Rightarrow> byte list \<Rightarrow> nat \<Rightarrow> byte list" where
  "memcpy dst off src n = take off dst @ take n src @ drop (off + n) dst"

text \<open>
  The answer of one \<^verbatim>\<open>sp_alloc\<close> call: \<open>None\<close> when the allocation fails (a null
  pointer), otherwise the bytes the uninitialised block happens to hold, by offset.
\<close>

type_synonym allocation = "(nat \<Rightarrow> byte) option"

definition sp_alloc :: "allocation \<Rightarrow> nat \<Rightarrow> byte list option" where
  "sp_alloc a n = map_option (\<lambda>junk. map junk [0..<n]) a"

text \<open>
  Modelled from the spec: \<^verbatim>\<open>sp_putl\<close> and \<^verbatim>\<open>sp_getl\<close> of
  \<^verbatim>\<open>utils/wire.h\<close> are not in the sources; the spec calls them the big-endian
  integer encode/decode helpers of a 4-byte tag. \<open>sp_putl\<close> writes the first four
  bytes of the buffer, \<open>sp_getl\<close> reads them; both are only called on buffers of at
  least four bytes.
\<close>

definition sp_putl :: "byte list \<Rightarrow> uint32_t \<Rightarrow> byte list" where
  "sp_putl buf val =
     buf[0 := ucast (drop_bit 24 val), 1 := ucast (drop_bit 16 val),
         2 := ucast (drop_bit 8 val), 3 := ucast val]"

definition sp_getl :: "byte list \<Rightarrow> uint32_t" where
  "sp_getl buf =
     push_bit 24 (ucast (buf ! 0)) OR push_bit 16 (ucast (buf ! 1)) OR
     push_bit 8 (ucast (buf ! 2)) OR ucast (buf ! 3)"

text \<open>
  Modelled from the spec: the timer service of the socket base is not in the sources;
  the spec gives \<^verbatim>\<open>start_timer(duration, callback)\<close>, and
  \<^verbatim>\<open>cancel_timer(handle)\<close>, idempotent and safe on a timer that is not armed.
\<close>

definition sp_sockbase_timer_start :: "sp_sockbase_timer \<Rightarrow> c_int \<Rightarrow> sp_sockbase_timer" where
  "sp_sockbase_timer_start timer timeout = Armed timeout"

definition sp_sockbase_timer_cancel :: "sp_sockbase_timer \<Rightarrow> sp_sockbase_timer" where
  "sp_sockbase_timer_cancel timer = Stopped"

text \<open>
  Modelled from the spec: \<^verbatim>\<open>sp_xreq_init\<close>, \<^verbatim>\<open>sp_xreq_send\<close> and
  \<^verbatim>\<open>sp_xreq_recv\<close> of \<^verbatim>\<open>xreq.c\<close> are not in the sources. The spec gives
  \<^verbatim>\<open>raw_send(buffer) -> Ok | WouldBlock | Fatal\<close>: the answer is the first
  argument here, and the buffer is recorded as handed over. It gives
  \<^verbatim>\<open>raw_recv(buffer, max_len) -> Ok(actual_len) | WouldBlock | Fatal\<close>, which
  retrieves the next available tagged buffer, if any: what the raw socket has is the
  first argument; a message is copied into the buffer as far as it fits and its actual
  length is written to \<^verbatim>\<open>*len\<close>.
\<close>

definition sp_xreq_init :: sp_xreq where
  "sp_xreq_init = \<lparr>dispatched = []\<rparr>"

definition sp_xreq_send :: "rc \<Rightarrow> sp_xreq \<Rightarrow> byte list option \<Rightarrow> nat \<Rightarrow> rc \<times> sp_xreq" where
  "sp_xreq_send answer self buf len =
     (answer, self\<lparr>dispatched := dispatched self @ [(buf, len)]\<rparr>)"

datatype incoming = NoMessage | Message "byte list" | Failure errno

definition sp_xreq_recv :: "incoming \<Rightarrow> byte list \<Rightarrow> nat \<Rightarrow> rc \<times> byte list \<times> nat" where
  "sp_xreq_recv inc buf len =
     (case inc of
        NoMessage \<Rightarrow> (ERR EAGAIN, buf, len)
      | Failure e \<Rightarrow> (ERR e, buf, len)
      | Message m \<Rightarrow> (OK, memcpy buf 0 m (min len (length m)), length m))"

subsection \<open>The functions of req.c\<close>

text \<open>
  \<^verbatim>\<open>sp_req_init\<close>: \<open>self\<close> is the memory \<^verbatim>\<open>sp_req_create\<close> has just
  allocated, \<open>random\<close> the four bytes \<^verbatim>\<open>sp_random_generate\<close> writes into
  \<^verbatim>\<open>reqid\<close>. The timer field is not touched.
\<close>

definition sp_req_init :: "uint32_t \<Rightarrow> sp_req \<Rightarrow> sp_req" where
  "sp_req_init random self =
     (let self = self\<lparr>xreq := sp_xreq_init\<rparr>;
          self = self\<lparr>reqid := random\<rparr>;
          self = self\<lparr>reqid := reqid self AND 0x7fffffff\<rparr>;
          self = self\<lparr>flags := 0\<rparr>;
          self = self\<lparr>requestlen := 0\<rparr>;
          self = self\<lparr>request := None\<rparr>
      in self\<lparr>resend_ivl := SP_REQ_DEFAULT_RESEND_IVL\<rparr>)"

text \<open>
  The calls \<^verbatim>\<open>sp_req_send\<close> makes to its collaborators, with their arguments.
  A trace lists them in the order they are made, each with the structure as it is at the
  moment of the call: \<^verbatim>\<open>sp_free\<close> changes no field, and the writes the function
  does between two calls are later overwritten, so only the trace shows what is freed
  and when, and what the structure holds when the next request is built.
\<close>

datatype call_made =
    Call_sp_free "byte list option"
  | Call_sp_sockbase_timer_cancel
  | Call_sp_alloc nat
  | Call_sp_xreq_send "byte list option" nat
  | Call_sp_sockbase_timer_start c_int

type_synonym trace = "(call_made \<times> sp_req) list"

text \<open>
  \<^verbatim>\<open>sp_req_send\<close>, lines 112 to 119: a request in progress is cancelled. The
  result is the calls made and the structure.
\<close>

definition sp_req_send_cancel :: "sp_req \<Rightarrow> trace \<times> sp_req" where
  "sp_req_send_cancel req =
     (if flags req AND SP_REQ_INPROGRESS \<noteq> 0 then
        (let calls = [(Call_sp_free (request req), req)];
             req = req\<lparr>requestlen := 0\<rparr>;
             req = req\<lparr>request := None\<rparr>;
             req = req\<lparr>flags := flags req AND NOT SP_REQ_INPROGRESS\<rparr>;
             calls = calls @ [(Call_sp_sockbase_timer_cancel, req)];
             req = req\<lparr>resend_timer := sp_sockbase_timer_cancel (resend_timer req)\<rparr>
         in (calls, req))
      else ([], req))"

text \<open>
  \<^verbatim>\<open>sp_req_send\<close>, lines 121 to 147: the new request is built, handed to the raw
  socket, and the timer is started. \<open>buf\<close> is the caller's \<^verbatim>\<open>len\<close> bytes. The
  result is the calls made and what the function returns.
\<close>

definition sp_req_send_request ::
  "allocation \<Rightarrow> rc \<Rightarrow> byte list \<Rightarrow> sp_req \<Rightarrow> trace \<times> (abort + rc \<times> sp_req)" where
  "sp_req_send_request a answer buf req =
     (let len = length buf;
          req = req\<lparr>reqid := reqid req + 1\<rparr>;
          req = req\<lparr>reqid := reqid req AND 0x7fffffff\<rparr>;
          req = req\<lparr>requestlen := sizeof_uint32_t + len\<rparr>;
          calls = [(Call_sp_alloc (requestlen req), req)]
      in case sp_alloc a (requestlen req) of
           None \<Rightarrow> (calls, Inl alloc_assert_failed)
         | Some mem \<Rightarrow>
            (let mem = sp_putl mem (reqid req OR 0x80000000);
                 mem = memcpy mem sizeof_uint32_t buf len;
                 req = req\<lparr>request := Some mem\<rparr>;
                 calls = calls @ [(Call_sp_xreq_send (request req) (requestlen req), req)];
                 (rc, x) = sp_xreq_send answer (xreq req) (request req) (requestlen req);
                 req = req\<lparr>xreq := x\<rparr>
             in if \<not> (rc = OK \<or> rc = ERR EAGAIN) then (calls, Inl (errnum_assert_failed rc))
                else
                  (let req = req\<lparr>flags := flags req OR SP_REQ_INPROGRESS\<rparr>;
                       calls = calls @ [(Call_sp_sockbase_timer_start (resend_ivl req), req)];
                       req = req\<lparr>resend_timer :=
                               sp_sockbase_timer_start (resend_timer req) (resend_ivl req)\<rparr>
                   in (calls, Inr (OK, req)))))"

text \<open>
  \<^verbatim>\<open>sp_req_send\<close> as a whole: lines 112 to 119, then lines 121 to 147 on the
  structure they leave. \<open>sp_req_send_traced\<close> gives the calls made and what the
  function returns, \<open>sp_req_send\<close> what it returns.
\<close>

definition sp_req_send_traced ::
  "allocation \<Rightarrow> rc \<Rightarrow> byte list \<Rightarrow> sp_req \<Rightarrow> trace \<times> (abort + rc \<times> sp_req)" where
  "sp_req_send_traced a answer buf req =
     (let (calls, req) = sp_req_send_cancel req;
          (calls', result) = sp_req_send_request a answer buf req
      in (calls @ calls', result))"

definition sp_req_send :: "allocation \<Rightarrow> rc \<Rightarrow> byte list \<Rightarrow> sp_req \<Rightarrow> abort + rc \<times> sp_req" where
  "sp_req_send a answer buf req = snd (sp_req_send_traced a answer buf req)"

text \<open>
  \<^verbatim>\<open>sp_req_recv\<close>: \<open>buf\<close> is the caller's buffer of \<^verbatim>\<open>*len\<close> bytes. The
  result is the return code, the caller's buffer, \<^verbatim>\<open>*len\<close> and the structure.
\<close>

definition sp_req_recv ::
  "allocation \<Rightarrow> incoming \<Rightarrow> byte list \<Rightarrow> sp_req \<Rightarrow> abort + rc \<times> byte list \<times> nat \<times> sp_req" where
  "sp_req_recv a inc buf req =
     (let len = length buf in
      if \<not> (flags req AND SP_REQ_INPROGRESS \<noteq> 0) then Inr (ERR EFSM, buf, len, req)
      else
        (let replylen = sizeof_uint32_t + len in
         case sp_alloc a replylen of
           None \<Rightarrow> Inl alloc_assert_failed
         | Some reply \<Rightarrow>
            (let (rc, reply, replylen) = sp_xreq_recv inc reply replylen in
             if rc = ERR EAGAIN then Inr (ERR EAGAIN, buf, len, req)
             else if \<not> (rc = OK) then Inl (errnum_assert_failed rc)
             else if replylen < sizeof_uint32_t then Inr (ERR EAGAIN, buf, len, req)
             else
               (let id = sp_getl reply in
                if \<not> (id AND 0x80000000 \<noteq> 0) then Inr (ERR EAGAIN, buf, len, req)
                else
                  (let id = id AND 0x7fffffff in
                   if id \<noteq> reqid req then Inr (ERR EAGAIN, buf, len, req)
                   else
                     (let buf = memcpy buf 0 (drop sizeof_uint32_t reply)
                                  (if len < replylen - sizeof_uint32_t then len
                                   else replylen - sizeof_uint32_t);
                          len = replylen - sizeof_uint32_t;
                          req = req\<lparr>resend_timer := sp_sockbase_timer_cancel (resend_timer req)\<rparr>;
                          req = req\<lparr>requestlen := 0\<rparr>;
                          req = req\<lparr>request := None\<rparr>;
                          req = req\<lparr>flags := flags req AND NOT SP_REQ_INPROGRESS\<rparr>
                      in Inr (OK, buf, len, req)))))))"

text \<open>\<^verbatim>\<open>sp_req_resend_routine\<close>, called by the timer service when the timer fires.\<close>

definition sp_req_resend_routine :: "rc \<Rightarrow> sp_req \<Rightarrow> abort + sp_req" where
  "sp_req_resend_routine answer req =
     (if \<not> (flags req AND SP_REQ_INPROGRESS \<noteq> 0) then Inl sp_assert_failed
      else
        (let (rc, x) = sp_xreq_send answer (xreq req) (request req) (requestlen req);
             req = req\<lparr>xreq := x\<rparr>
         in if \<not> (rc = OK \<or> rc = ERR EAGAIN) then Inl (errnum_assert_failed rc)
            else Inr (req\<lparr>resend_timer :=
                             sp_sockbase_timer_start (resend_timer req) (resend_ivl req)\<rparr>)))"

text \<open>
  \<^verbatim>\<open>sp_req_setopt\<close> and \<^verbatim>\<open>sp_req_getopt\<close>. The value of the macro
  \<^verbatim>\<open>SP_RESEND_IVL\<close> is not in the sources: it is the first argument.
  \<open>optval\<close> is the \<^verbatim>\<open>int\<close> at \<^verbatim>\<open>optval\<close>, \<open>optvallen\<close> the length the
  caller gives for it.
\<close>

definition sp_req_setopt :: "int \<Rightarrow> int \<Rightarrow> c_int \<Rightarrow> nat \<Rightarrow> sp_req \<Rightarrow> rc \<times> sp_req" where
  "sp_req_setopt sp_resend_ivl opt optval optvallen req =
     (if opt = sp_resend_ivl then
        (if optvallen \<noteq> sizeof_int then (ERR EINVAL, req)
         else (OK, req\<lparr>resend_ivl := optval\<rparr>))
      else (ERR ENOPROTOOPT, req))"

definition sp_req_getopt :: "int \<Rightarrow> int \<Rightarrow> c_int \<Rightarrow> nat \<Rightarrow> sp_req \<Rightarrow> rc \<times> c_int \<times> nat" where
  "sp_req_getopt sp_resend_ivl opt optval optvallen req =
     (if opt = sp_resend_ivl then
        (if optvallen < sizeof_int then (ERR EINVAL, optval, optvallen)
         else (OK, resend_ivl req, sizeof_int))
      else (ERR ENOPROTOOPT, optval, optvallen))"

subsection \<open>Sequences of calls\<close>

text \<open>
  A caller's sequence of \<^verbatim>\<open>send\<close> and \<^verbatim>\<open>recv\<close> calls on one socket, each
  with what the collaborators answer during the call. The run stops at a failed
  assertion.
\<close>

datatype call = Send allocation rc "byte list" | Recv allocation incoming "byte list"

fun run :: "call list \<Rightarrow> sp_req \<Rightarrow> abort + sp_req" where
  "run [] req = Inr req"
| "run (Send a answer buf # cs) req =
     (case sp_req_send a answer buf req of
        Inl e \<Rightarrow> Inl e
      | Inr (rc, req') \<Rightarrow> run cs req')"
| "run (Recv a inc buf # cs) req =
     (case sp_req_recv a inc buf req of
        Inl e \<Rightarrow> Inl e
      | Inr (rc, buf', len', req') \<Rightarrow> run cs req')"

fun sends :: "call list \<Rightarrow> nat" where
  "sends [] = 0"
| "sends (Send a answer buf # cs) = Suc (sends cs)"
| "sends (Recv a inc buf # cs) = sends cs"

text \<open>The masked ID in the wire tag of a buffer handed to the raw socket.\<close>

definition wire_id :: "byte list option \<times> nat \<Rightarrow> uint32_t" where
  "wire_id d = (case fst d of None \<Rightarrow> 0 | Some b \<Rightarrow> sp_getl b AND 0x7fffffff)"

text \<open>
  The four bytes of a 32-bit value, most significant byte first: the big-endian
  encoding the wire format asks for, written out for the statements below.
\<close>

definition tag_bytes :: "uint32_t \<Rightarrow> byte list" where
  "tag_bytes t = [ucast (drop_bit 24 t), ucast (drop_bit 16 t), ucast (drop_bit 8 t), ucast t]"

section \<open>Auxiliary facts\<close>

subsection \<open>Words and buffers\<close>

lemma be_roundtrip:
  fixes v :: "32 word"
  shows "push_bit 24 (ucast (ucast (drop_bit 24 v) :: 8 word)) OR
         push_bit 16 (ucast (ucast (drop_bit 16 v) :: 8 word)) OR
         push_bit 8 (ucast (ucast (drop_bit 8 v) :: 8 word)) OR
         ucast (ucast v :: 8 word) = v"
proof (rule bit_word_eqI)
  fix n :: nat
  assume "n < LENGTH(32)"
  then have n: "n < 32" by simp
  consider "n < 8" | "8 \<le> n" "n < 16" | "16 \<le> n" "n < 24" | "24 \<le> n" "n < 32"
    using n by linarith
  then show "bit (push_bit 24 (ucast (ucast (drop_bit 24 v) :: 8 word)) OR
         push_bit 16 (ucast (ucast (drop_bit 16 v) :: 8 word)) OR
         push_bit 8 (ucast (ucast (drop_bit 8 v) :: 8 word)) OR
         (ucast (ucast v :: 8 word) :: 32 word)) n = bit v n"
    by cases (auto simp add: bit_simps)
qed

lemma four_bytes:
  assumes "4 \<le> length (buf :: 'a list)"
  obtains a b c d rest where "buf = a # b # c # d # rest"
  using assms by (auto simp: eval_nat_numeral Suc_le_length_iff)

lemma sp_getl_sp_putl: "4 \<le> length buf \<Longrightarrow> sp_getl (sp_putl buf v) = v"
  by (erule four_bytes) (simp add: sp_getl_def sp_putl_def be_roundtrip)

lemma sp_getl_tag_bytes: "sp_getl (tag_bytes t @ payload) = t"
  by (simp add: sp_getl_def tag_bytes_def be_roundtrip)

lemma sp_putl_bytes: "4 \<le> length buf \<Longrightarrow> sp_putl buf v = tag_bytes v @ drop 4 buf"
  by (erule four_bytes) (simp add: sp_putl_def tag_bytes_def)

lemma sp_alloc_Some: "sp_alloc (Some junk) n = Some (map junk [0..<n])"
  by (simp add: sp_alloc_def)

lemma request_buffer:
  assumes "length mem = 4 + length buf"
  shows "memcpy (sp_putl mem t) 4 buf (length buf) = tag_bytes t @ buf"
  using assms by (simp add: memcpy_def sp_putl_bytes tag_bytes_def)

lemma next_id_differs: "(w + 1) AND 0x7fffffff \<noteq> (w AND 0x7fffffff :: 32 word)"
proof
  assume "(w + 1) AND 0x7fffffff = w AND 0x7fffffff"
  then have "even ((w + 1) AND (0x7fffffff :: 32 word)) = even (w AND 0x7fffffff)"
    by simp
  then show False by (simp add: even_and_iff)
qed

lemma unat_masked:
  "unat ((w + of_nat k) AND (0x7fffffff :: 32 word)) = (unat w + k) mod 2 ^ 31"
proof -
  have m: "(0x7fffffff :: 32 word) = mask 31"
    by (simp add: mask_eq_exp_minus_1)
  have "unat ((w + of_nat k) AND mask 31) = unat (w + of_nat k :: 32 word) mod 2 ^ 31"
  proof -
    have "(w + of_nat k) AND mask 31 = take_bit 31 (w + of_nat k)"
      by (simp only: take_bit_eq_mask)
    then have "unat ((w + of_nat k) AND mask 31) = take_bit 31 (unat (w + of_nat k))"
      by (simp only: unsigned_take_bit_eq)
    then show ?thesis by (simp only: take_bit_eq_mod)
  qed
  also have "\<dots> = ((unat w + k) mod 2 ^ 32) mod 2 ^ 31"
    by (simp add: unat_word_ariths unat_of_nat mod_add_right_eq)
  also have "\<dots> = (unat w + k) mod 2 ^ 31"
    by (simp add: mod_mod_cancel)
  finally show ?thesis by (simp only: m)
qed

subsection \<open>What a call that returns has done\<close>

lemma sp_req_send_request_Inr:
  assumes "snd (sp_req_send_request a answer buf req) = Inr (rc, req')"
  shows "rc = OK \<and> a \<noteq> None \<and> (answer = OK \<or> answer = ERR EAGAIN) \<and>
         req' = req\<lparr>
           xreq := (xreq req)\<lparr>dispatched := dispatched (xreq req) @
             [(Some (tag_bytes ((reqid req + 1) AND 0x7fffffff OR 0x80000000) @ buf),
               4 + length buf)]\<rparr>,
           reqid := (reqid req + 1) AND 0x7fffffff,
           flags := flags req OR SP_REQ_INPROGRESS,
           requestlen := 4 + length buf,
           request := Some (tag_bytes ((reqid req + 1) AND 0x7fffffff OR 0x80000000) @ buf),
           resend_timer := Armed (resend_ivl req)\<rparr>"
proof (cases a)
  case None
  with assms show ?thesis
    by (simp add: sp_req_send_request_def sp_alloc_def Let_def)
next
  case (Some junk)
  have len: "length (map junk [0..<4 + length buf]) = 4 + length buf"
    by simp
  note rb = request_buffer [OF len]
  from assms Some show ?thesis
    by (cases req) (simp add: sp_req_send_request_def sp_alloc_Some Let_def sizeof_uint32_t_def
        rb sp_xreq_send_def sp_sockbase_timer_start_def split: if_splits)
qed

lemma sp_req_send_request_returns:
  assumes "answer = OK \<or> answer = ERR EAGAIN"
  shows "\<exists>req'. snd (sp_req_send_request (Some junk) answer buf req) = Inr (OK, req')"
  using assms
  by (auto simp add: sp_req_send_request_def sp_alloc_Some Let_def sp_xreq_send_def)

lemma reply_tag:
  assumes "4 \<le> length m" and "4 \<le> k"
  shows "sp_getl (memcpy reply 0 m k) = sp_getl m"
proof -
  have "(take k m @ drop k reply) ! i = m ! i" if "i < 4" for i
    using that assms by (simp add: nth_append)
  then show ?thesis
    by (simp add: sp_getl_def memcpy_def)
qed

lemma reply_payload:
  assumes "4 \<le> k" and "k \<le> length m" and "n \<le> k - 4"
  shows "take n (drop 4 (memcpy reply 0 m k)) = take n (drop 4 m)"
proof -
  have "drop 4 (take k m @ drop k reply) = take (k - 4) (drop 4 m) @ drop k reply"
    using assms by (simp add: drop_take)
  moreover have "n \<le> length (take (k - 4) (drop 4 m))"
    using assms by simp
  ultimately show ?thesis
    using assms by (simp add: memcpy_def min_def)
qed

lemma sp_req_recv_idle:
  assumes "flags req AND SP_REQ_INPROGRESS = 0"
  shows "sp_req_recv a inc buf req = Inr (ERR EFSM, buf, length buf, req)"
  using assms by (simp add: sp_req_recv_def)

lemma sp_req_recv_nothing:
  assumes "flags req AND SP_REQ_INPROGRESS \<noteq> 0"
  shows "sp_req_recv (Some junk) NoMessage buf req = Inr (ERR EAGAIN, buf, length buf, req)"
  using assms by (simp add: sp_req_recv_def sp_alloc_Some sp_xreq_recv_def)

lemma sp_req_recv_short:
  assumes "flags req AND SP_REQ_INPROGRESS \<noteq> 0" and "length m < 4"
  shows "sp_req_recv (Some junk) (Message m) buf req = Inr (ERR EAGAIN, buf, length buf, req)"
  using assms by (simp add: sp_req_recv_def sp_alloc_Some sp_xreq_recv_def sizeof_uint32_t_def)

lemma sp_req_recv_tagged:
  assumes "flags req AND SP_REQ_INPROGRESS \<noteq> 0" and "4 \<le> length m"
  shows "sp_req_recv (Some junk) (Message m) buf req =
     (if sp_getl m AND 0x80000000 = 0 \<or> sp_getl m AND 0x7fffffff \<noteq> reqid req
      then Inr (ERR EAGAIN, buf, length buf, req)
      else Inr (OK,
             take (min (length buf) (length m - 4)) (drop 4 m) @
               drop (min (length buf) (length m - 4)) buf,
             length m - 4,
             req\<lparr>flags := flags req AND NOT SP_REQ_INPROGRESS, requestlen := 0,
                 request := None, resend_timer := Stopped\<rparr>))"
  using assms
  by (cases req) (simp add: sp_req_recv_def sp_alloc_Some sp_xreq_recv_def sizeof_uint32_t_def
      Let_def reply_tag reply_payload memcpy_def [of buf] sp_sockbase_timer_cancel_def min_def)

lemma inprogress_cleared: "(f AND NOT SP_REQ_INPROGRESS) AND SP_REQ_INPROGRESS = 0"
  by (simp add: SP_REQ_INPROGRESS_def and.assoc)

lemma inprogress_set: "(f OR SP_REQ_INPROGRESS) AND SP_REQ_INPROGRESS \<noteq> 0"
  by (simp add: SP_REQ_INPROGRESS_def bit.conj_disj_distrib2)

lemma masked_bit31: "\<not> bit (w AND (0x7fffffff :: 32 word)) 31"
proof -
  have m: "(0x7fffffff :: 32 word) = mask 31"
    by (simp add: mask_eq_exp_minus_1)
  show ?thesis by (simp only: m bit_and_iff bit_mask_iff) simp
qed

lemma sp_req_send_cancel_inprogress:
  assumes "flags req AND SP_REQ_INPROGRESS \<noteq> 0"
  shows "sp_req_send_cancel req =
           ([(Call_sp_free (request req), req),
             (Call_sp_sockbase_timer_cancel,
              req\<lparr>flags := flags req AND NOT SP_REQ_INPROGRESS, requestlen := 0,
                  request := None\<rparr>)],
            req\<lparr>flags := flags req AND NOT SP_REQ_INPROGRESS, requestlen := 0,
                request := None, resend_timer := Stopped\<rparr>)"
  using assms by (cases req) (simp add: sp_req_send_cancel_def sp_sockbase_timer_cancel_def)

lemma sp_req_send_cancel_keeps:
  "reqid (snd (sp_req_send_cancel req)) = reqid req \<and>
   xreq (snd (sp_req_send_cancel req)) = xreq req \<and>
   resend_ivl (snd (sp_req_send_cancel req)) = resend_ivl req"
  by (simp add: sp_req_send_cancel_def Let_def)

lemma sp_req_send_result:
  "sp_req_send a answer buf req
     = snd (sp_req_send_request a answer buf (snd (sp_req_send_cancel req)))"
  by (simp add: sp_req_send_def sp_req_send_traced_def split_beta)

lemma sp_req_send_request_calls:
  assumes "snd (sp_req_send_request a answer buf req) = Inr (rc, req')"
  shows "\<exists>at_send at_start.
           fst (sp_req_send_request a answer buf req) =
             [(Call_sp_alloc (4 + length buf),
               req\<lparr>reqid := (reqid req + 1) AND 0x7fffffff, requestlen := 4 + length buf\<rparr>),
              (Call_sp_xreq_send (request req') (requestlen req'), at_send),
              (Call_sp_sockbase_timer_start (resend_ivl req), at_start)]"
proof (cases a)
  case None
  with assms show ?thesis
    by (simp add: sp_req_send_request_def sp_alloc_def Let_def)
next
  case (Some junk)
  from assms Some show ?thesis
    by (cases req) (auto simp add: sp_req_send_request_def sp_alloc_Some Let_def
        sizeof_uint32_t_def sp_xreq_send_def split: if_splits)
qed

lemma sp_req_send_Inr:
  assumes "sp_req_send a answer buf req = Inr (rc, req')"
  shows "rc = OK \<and> a \<noteq> None \<and> (answer = OK \<or> answer = ERR EAGAIN) \<and>
         reqid req' = (reqid req + 1) AND 0x7fffffff \<and>
         request req' = Some (tag_bytes (reqid req' OR 0x80000000) @ buf) \<and>
         requestlen req' = 4 + length buf \<and>
         dispatched (xreq req') = dispatched (xreq req) @ [(request req', requestlen req')] \<and>
         flags req' AND SP_REQ_INPROGRESS \<noteq> 0 \<and>
         resend_ivl req' = resend_ivl req \<and>
         resend_timer req' = Armed (resend_ivl req)"
proof -
  from assms
  have "snd (sp_req_send_request a answer buf (snd (sp_req_send_cancel req))) = Inr (rc, req')"
    by (simp add: sp_req_send_result)
  from sp_req_send_request_Inr [OF this] sp_req_send_cancel_keeps [of req]
  show ?thesis by (simp add: SP_REQ_INPROGRESS_def bit.conj_disj_distrib2)
qed

lemma sp_req_send_returns:
  assumes "answer = OK \<or> answer = ERR EAGAIN"
  shows "\<exists>req'. sp_req_send (Some junk) answer buf req = Inr (OK, req')"
  using sp_req_send_request_returns [OF assms] by (simp add: sp_req_send_result)

lemma sp_req_send_cancel_state:
  "snd (sp_req_send_cancel req) =
     (if flags req AND SP_REQ_INPROGRESS \<noteq> 0
      then req\<lparr>flags := flags req AND NOT SP_REQ_INPROGRESS, requestlen := 0,
               request := None, resend_timer := Stopped\<rparr>
      else req)"
  by (cases req) (simp add: sp_req_send_cancel_def sp_sockbase_timer_cancel_def)

lemma sp_req_send_value:
  assumes "answer = OK \<or> answer = ERR EAGAIN"
  shows "sp_req_send (Some junk) answer buf req =
     Inr (OK, (snd (sp_req_send_cancel req))\<lparr>
           xreq := (xreq req)\<lparr>dispatched := dispatched (xreq req) @
             [(Some (tag_bytes ((reqid req + 1) AND 0x7fffffff OR 0x80000000) @ buf),
               4 + length buf)]\<rparr>,
           reqid := (reqid req + 1) AND 0x7fffffff,
           flags := flags (snd (sp_req_send_cancel req)) OR SP_REQ_INPROGRESS,
           requestlen := 4 + length buf,
           request := Some (tag_bytes ((reqid req + 1) AND 0x7fffffff OR 0x80000000) @ buf),
           resend_timer := Armed (resend_ivl req)\<rparr>)"
proof -
  from sp_req_send_request_returns [OF assms] obtain req'
    where r: "snd (sp_req_send_request (Some junk) answer buf (snd (sp_req_send_cancel req)))
              = Inr (OK, req')"
    by blast
  from sp_req_send_request_Inr [OF r] sp_req_send_cancel_keeps [of req] r show ?thesis
    by (simp add: sp_req_send_result)
qed

subsection \<open>Receiving, and runs of calls\<close>

lemma sp_req_recv_keeps_reqid:
  assumes "sp_req_recv a inc buf req = Inr (rc, buf', len', req')"
  shows "reqid req' = reqid req \<and> xreq req' = xreq req"
  using assms
  by (auto simp: sp_req_recv_def Let_def split: if_splits option.splits prod.splits)

lemma sp_req_recv_OK_idle:
  assumes "sp_req_recv a inc buf req = Inr (OK, buf', len', req')"
  shows "flags req' AND SP_REQ_INPROGRESS = 0"
  using assms
  by (auto simp: sp_req_recv_def Let_def inprogress_cleared
      split: if_splits option.splits prod.splits)

lemma and_bit31: "(w AND 0x80000000 = 0) = (\<not> bit w 31)" for w :: "32 word"
proof -
  have "(0x80000000 :: 32 word) = push_bit 31 1"
    by simp
  then show ?thesis
    by (simp only: and_exp_eq_0_iff_not_bit push_bit_of_1)
qed

lemma masked_add_Suc:
  "((w + 1) AND 0x7fffffff) + of_nat k AND 0x7fffffff = (w + of_nat (Suc k)) AND (0x7fffffff :: 32 word)"
proof -
  have "unat (((w + 1) AND 0x7fffffff) + of_nat k AND (0x7fffffff :: 32 word))
        = unat ((w + of_nat (Suc k)) AND (0x7fffffff :: 32 word))"
    using unat_masked [of "(w + 1) AND 0x7fffffff" k] unat_masked [of w 1] unat_masked [of w "Suc k"]
    by (simp add: mod_add_left_eq)
  then show ?thesis by (simp only: word_unat_eq_iff)
qed

lemma wire_id_request: "wire_id (Some (tag_bytes (w AND 0x7fffffff OR 0x80000000) @ buf), n) = w AND 0x7fffffff"
proof -
  have "(w AND 0x7fffffff OR 0x80000000) AND 0x7fffffff = w AND (0x7fffffff :: 32 word)"
    by (simp add: bit.conj_disj_distrib2 and.assoc)
  then show ?thesis by (simp add: wire_id_def sp_getl_tag_bytes)
qed

lemma run_dispatched:
  assumes "run cs req = Inr req'"
  shows "\<exists>ds. dispatched (xreq req') = dispatched (xreq req) @ ds \<and>
           map wire_id ds = map (\<lambda>k. (reqid req + of_nat k) AND 0x7fffffff) [1..<Suc (sends cs)] \<and>
           reqid req' AND 0x7fffffff = (reqid req + of_nat (sends cs)) AND 0x7fffffff"
  using assms
proof (induction cs arbitrary: req)
  case Nil
  then show ?case by simp
next
  case (Cons c cs)
  show ?case
  proof (cases c)
    case (Send a answer buf)
    with Cons.prems obtain rc req1
      where s: "sp_req_send a answer buf req = Inr (rc, req1)" and r: "run cs req1 = Inr req'"
      by (auto split: sum.splits)
    note f = sp_req_send_Inr [OF s]
    from Cons.IH [OF r] obtain ds
      where ds: "dispatched (xreq req') = dispatched (xreq req1) @ ds"
        and ids: "map wire_id ds = map (\<lambda>k. (reqid req1 + of_nat k) AND 0x7fffffff) [1..<Suc (sends cs)]"
        and last: "reqid req' AND 0x7fffffff = (reqid req1 + of_nat (sends cs)) AND 0x7fffffff"
      by blast
    have id1: "reqid req1 = (reqid req + 1) AND 0x7fffffff" using f by simp
    have first: "wire_id (request req1, requestlen req1) = (reqid req + 1) AND 0x7fffffff"
      using f by (simp add: wire_id_request)
    have shift: "map (\<lambda>k. (reqid req1 + of_nat k) AND 0x7fffffff) [1..<Suc (sends cs)]
                 = map (\<lambda>k. (reqid req + of_nat k) AND 0x7fffffff) [2..<Suc (Suc (sends cs))]"
    proof -
      have "[2..<Suc (Suc (sends cs))] = map Suc [1..<Suc (sends cs)]"
        by (simp only: map_Suc_upt) (simp add: numeral_2_eq_2)
      then show ?thesis
        by (simp add: id1 masked_add_Suc comp_def del: upt_Suc of_nat_Suc)
    qed
    have split: "[1..<Suc (Suc (sends cs))] = 1 # [2..<Suc (Suc (sends cs))]"
      by (simp add: upt_conv_Cons numeral_2_eq_2)
    have "dispatched (xreq req') = dispatched (xreq req) @ ((request req1, requestlen req1) # ds)"
      using ds f by simp
    moreover have "map wire_id ((request req1, requestlen req1) # ds)
        = map (\<lambda>k. (reqid req + of_nat k) AND 0x7fffffff) [1..<Suc (sends (c # cs))]"
      using first ids shift Send by (simp only: split list.map sends.simps) simp
    moreover have "reqid req' AND 0x7fffffff = (reqid req + of_nat (sends (c # cs))) AND 0x7fffffff"
      using last Send by (simp add: id1 masked_add_Suc del: of_nat_Suc)
    ultimately show ?thesis by blast
  next
    case (Recv a inc buf)
    with Cons.prems obtain rc buf' len' req1
      where s: "sp_req_recv a inc buf req = Inr (rc, buf', len', req1)" and r: "run cs req1 = Inr req'"
      by (auto split: sum.splits)
    from sp_req_recv_keeps_reqid [OF s] Cons.IH [OF r] Recv show ?thesis by simp
  qed
qed

section \<open>The claims\<close>

text \<open>
  C1. On a socket with a request in progress, a \<^verbatim>\<open>sp_req_send\<close> that returns has
  made exactly five calls, in this order. First \<^verbatim>\<open>sp_free\<close> of the old stored
  request, the structure still untouched. Then \<^verbatim>\<open>sp_sockbase_timer_cancel\<close>, at
  which moment the stored request is already the null pointer with length 0 and the
  in-progress flag already clear, the correlation ID still being the old one. Only then
  \<^verbatim>\<open>sp_alloc\<close> of the block for the new request, at which moment the request
  pointer is null, the flag is clear and the timer is stopped; then the dispatch of the
  new request and the start of the timer. Consequently a reply of at least four bytes
  whose masked ID is the old correlation ID is refused by \<^verbatim>\<open>sp_req_recv\<close>
  afterwards with \<^verbatim>\<open>-EAGAIN\<close>, whatever the caller's buffer, and the socket is left
  as the send left it, still waiting for the reply to the new ID.
\<close>

theorem sp_req_send_supersedes:
  assumes "flags req AND SP_REQ_INPROGRESS \<noteq> 0"
    and "sp_req_send a answer buf req = Inr (rc, req')"
    and "4 \<le> length m"
    and "sp_getl m AND 0x7fffffff = reqid req AND 0x7fffffff"
  shows "(\<exists>at_send at_start.
            fst (sp_req_send_traced a answer buf req) =
              [(Call_sp_free (request req), req),
               (Call_sp_sockbase_timer_cancel,
                req\<lparr>flags := flags req AND NOT SP_REQ_INPROGRESS, requestlen := 0,
                    request := None\<rparr>),
               (Call_sp_alloc (4 + length buf),
                req\<lparr>flags := flags req AND NOT SP_REQ_INPROGRESS, requestlen := 4 + length buf,
                    request := None, resend_timer := Stopped,
                    reqid := (reqid req + 1) AND 0x7fffffff\<rparr>),
               (Call_sp_xreq_send (request req') (requestlen req'), at_send),
               (Call_sp_sockbase_timer_start (resend_ivl req), at_start)]) \<and>
         (flags req AND NOT SP_REQ_INPROGRESS) AND SP_REQ_INPROGRESS = 0 \<and>
         snd (sp_req_send_traced a answer buf req) = Inr (rc, req') \<and>
         sp_req_recv (Some junk) (Message m) b req' = Inr (ERR EAGAIN, b, length b, req')"
proof -
  note c = sp_req_send_cancel_inprogress [OF assms(1)]
  let ?c = "req\<lparr>flags := flags req AND NOT SP_REQ_INPROGRESS, requestlen := 0,
                request := None, resend_timer := Stopped\<rparr>"
  have built: "snd (sp_req_send_request a answer buf ?c) = Inr (rc, req')"
    using assms(2) by (simp add: sp_req_send_result c)
  from sp_req_send_request_calls [OF built] obtain at_send at_start
    where calls: "fst (sp_req_send_request a answer buf ?c) =
             [(Call_sp_alloc (4 + length buf),
               ?c\<lparr>reqid := (reqid ?c + 1) AND 0x7fffffff, requestlen := 4 + length buf\<rparr>),
              (Call_sp_xreq_send (request req') (requestlen req'), at_send),
              (Call_sp_sockbase_timer_start (resend_ivl ?c), at_start)]"
    by blast
  have trace: "\<exists>at_send at_start.
            fst (sp_req_send_traced a answer buf req) =
              [(Call_sp_free (request req), req),
               (Call_sp_sockbase_timer_cancel,
                req\<lparr>flags := flags req AND NOT SP_REQ_INPROGRESS, requestlen := 0,
                    request := None\<rparr>),
               (Call_sp_alloc (4 + length buf),
                req\<lparr>flags := flags req AND NOT SP_REQ_INPROGRESS, requestlen := 4 + length buf,
                    request := None, resend_timer := Stopped,
                    reqid := (reqid req + 1) AND 0x7fffffff\<rparr>),
               (Call_sp_xreq_send (request req') (requestlen req'), at_send),
               (Call_sp_sockbase_timer_start (resend_ivl req), at_start)]"
  proof -
    have "fst (sp_req_send_traced a answer buf req) =
            [(Call_sp_free (request req), req),
             (Call_sp_sockbase_timer_cancel,
              req\<lparr>flags := flags req AND NOT SP_REQ_INPROGRESS, requestlen := 0,
                  request := None\<rparr>)] @
            fst (sp_req_send_request a answer buf ?c)"
      by (simp add: sp_req_send_traced_def split_beta c)
    with calls show ?thesis
      by (cases req) simp
  qed
  have result: "snd (sp_req_send_traced a answer buf req) = Inr (rc, req')"
    using assms(2) by (simp add: sp_req_send_def)
  note s = sp_req_send_Inr [OF assms(2)]
  from s have busy: "flags req' AND SP_REQ_INPROGRESS \<noteq> 0" by simp
  from s have "reqid req' = (reqid req + 1) AND 0x7fffffff" by simp
  with assms(4) next_id_differs [of "reqid req"]
  have stale: "sp_getl m AND 0x7fffffff \<noteq> reqid req'" by simp
  have "sp_req_recv (Some junk) (Message m) b req' = Inr (ERR EAGAIN, b, length b, req')"
    using stale by (simp add: sp_req_recv_tagged [OF busy assms(3)])
  with trace result inprogress_cleared [of "flags req"] show ?thesis by blast
qed

theorem sp_req_send_supersedes_witness:
  "flags \<lparr>xreq = \<lparr>dispatched = [(Some [0x80, 0, 0, 5, 1], 5)]\<rparr>, reqid = 5, flags = 1,
        requestlen = 5, request = Some [0x80, 0, 0, 5, 1], resend_ivl = 60000,
        resend_timer = Armed 60000\<rparr> AND SP_REQ_INPROGRESS \<noteq> 0 \<and>
   sp_req_send (Some (\<lambda>_. 0)) OK [2, 3]
      \<lparr>xreq = \<lparr>dispatched = [(Some [0x80, 0, 0, 5, 1], 5)]\<rparr>, reqid = 5, flags = 1,
        requestlen = 5, request = Some [0x80, 0, 0, 5, 1], resend_ivl = 60000,
        resend_timer = Armed 60000\<rparr>
     = Inr (OK,
      \<lparr>xreq = \<lparr>dispatched = [(Some [0x80, 0, 0, 5, 1], 5), (Some [0x80, 0, 0, 6, 2, 3], 6)]\<rparr>,
        reqid = 6, flags = 1, requestlen = 6, request = Some [0x80, 0, 0, 6, 2, 3],
        resend_ivl = 60000, resend_timer = Armed 60000\<rparr>) \<and>
   4 \<le> length [0x80, 0, 0, 5, 9 :: byte] \<and>
   sp_getl [0x80, 0, 0, 5, 9] AND 0x7fffffff = 5 AND 0x7fffffff \<and>
   map fst (fst (sp_req_send_traced (Some (\<lambda>_. 0)) OK [2, 3]
      \<lparr>xreq = \<lparr>dispatched = [(Some [0x80, 0, 0, 5, 1], 5)]\<rparr>, reqid = 5, flags = 1,
        requestlen = 5, request = Some [0x80, 0, 0, 5, 1], resend_ivl = 60000,
        resend_timer = Armed 60000\<rparr>))
     = [Call_sp_free (Some [0x80, 0, 0, 5, 1]), Call_sp_sockbase_timer_cancel, Call_sp_alloc 6,
        Call_sp_xreq_send (Some [0x80, 0, 0, 6, 2, 3]) 6, Call_sp_sockbase_timer_start 60000] \<and>
   sp_req_recv (Some (\<lambda>_. 0)) (Message [0x80, 0, 0, 5, 9]) [0, 0, 0]
      \<lparr>xreq = \<lparr>dispatched = [(Some [0x80, 0, 0, 5, 1], 5), (Some [0x80, 0, 0, 6, 2, 3], 6)]\<rparr>,
        reqid = 6, flags = 1, requestlen = 6, request = Some [0x80, 0, 0, 6, 2, 3],
        resend_ivl = 60000, resend_timer = Armed 60000\<rparr>
     = Inr (ERR EAGAIN, [0, 0, 0], 3,
      \<lparr>xreq = \<lparr>dispatched = [(Some [0x80, 0, 0, 5, 1], 5), (Some [0x80, 0, 0, 6, 2, 3], 6)]\<rparr>,
        reqid = 6, flags = 1, requestlen = 6, request = Some [0x80, 0, 0, 6, 2, 3],
        resend_ivl = 60000, resend_timer = Armed 60000\<rparr>)"
proof -
  let ?old = "\<lparr>xreq = \<lparr>dispatched = [(Some [0x80, 0, 0, 5, 1], 5)]\<rparr>, reqid = 5, flags = 1,
        requestlen = 5, request = Some [0x80, 0, 0, 5, 1], resend_ivl = 60000,
        resend_timer = Armed 60000\<rparr>"
  let ?new = "\<lparr>xreq = \<lparr>dispatched = [(Some [0x80, 0, 0, 5, 1], 5), (Some [0x80, 0, 0, 6, 2, 3], 6)]\<rparr>,
        reqid = 6, flags = 1, requestlen = 6, request = Some [0x80, 0, 0, 6, 2, 3],
        resend_ivl = 60000, resend_timer = Armed 60000\<rparr>"
  have h1: "flags ?old AND SP_REQ_INPROGRESS \<noteq> 0"
    by (simp add: SP_REQ_INPROGRESS_def)
  have h2: "sp_req_send (Some (\<lambda>_. 0)) OK [2, 3] ?old = Inr (OK, ?new)"
    by (simp add: sp_req_send_value sp_req_send_cancel_state SP_REQ_INPROGRESS_def tag_bytes_def)
  have h3: "4 \<le> length [0x80, 0, 0, 5, 9 :: byte]"
    by simp
  have h4: "sp_getl [0x80, 0, 0, 5, 9] AND 0x7fffffff = reqid ?old AND 0x7fffffff"
    by (simp add: sp_getl_def)
  from sp_req_send_supersedes [OF h1 h2 h3 h4, where junk = "\<lambda>_. 0" and b = "[0, 0, 0]"]
    h1 h2 h4
  show ?thesis by auto
qed

text \<open>
  C2. While a request is in progress (and the reply block can be allocated),
  \<^verbatim>\<open>sp_req_recv\<close> returns \<^verbatim>\<open>-EAGAIN\<close> and leaves the whole structure, the
  caller's buffer and \<^verbatim>\<open>*len\<close> as they were when the raw socket has no message,
  and when its message is shorter than 4 bytes, or has bit 31 of the decoded tag clear,
  or has a masked ID other than the current correlation ID. The structure being the
  same, the flag is still set, the request still stored and the timer still armed.
\<close>

theorem sp_req_recv_rejects:
  assumes "flags req AND SP_REQ_INPROGRESS \<noteq> 0"
  shows "sp_req_recv (Some junk) NoMessage buf req = Inr (ERR EAGAIN, buf, length buf, req) \<and>
         (length m < 4 \<or>
          4 \<le> length m \<and> (\<not> bit (sp_getl m) 31 \<or> sp_getl m AND 0x7fffffff \<noteq> reqid req)
          \<longrightarrow> sp_req_recv (Some junk) (Message m) buf req
                = Inr (ERR EAGAIN, buf, length buf, req))"
  using assms sp_req_recv_nothing [OF assms] sp_req_recv_short [OF assms]
    sp_req_recv_tagged [OF assms]
  by (auto simp: and_bit31)

theorem sp_req_recv_rejects_witness:
  "flags \<lparr>xreq = \<lparr>dispatched = [(Some [0x80, 0, 0, 5, 1], 5)]\<rparr>, reqid = 5, flags = 1,
        requestlen = 5, request = Some [0x80, 0, 0, 5, 1], resend_ivl = 60000,
        resend_timer = Armed 60000\<rparr> AND SP_REQ_INPROGRESS \<noteq> 0 \<and>
   4 \<le> length [0x80, 0, 0, 4, 9 :: byte] \<and>
   sp_getl [0x80, 0, 0, 4, 9] AND 0x7fffffff \<noteq> 5 \<and>
   sp_req_recv (Some (\<lambda>_. 0)) NoMessage [7, 7]
      \<lparr>xreq = \<lparr>dispatched = [(Some [0x80, 0, 0, 5, 1], 5)]\<rparr>, reqid = 5, flags = 1,
        requestlen = 5, request = Some [0x80, 0, 0, 5, 1], resend_ivl = 60000,
        resend_timer = Armed 60000\<rparr>
     = Inr (ERR EAGAIN, [7, 7], 2,
      \<lparr>xreq = \<lparr>dispatched = [(Some [0x80, 0, 0, 5, 1], 5)]\<rparr>, reqid = 5, flags = 1,
        requestlen = 5, request = Some [0x80, 0, 0, 5, 1], resend_ivl = 60000,
        resend_timer = Armed 60000\<rparr>) \<and>
   sp_req_recv (Some (\<lambda>_. 0)) (Message [0x80, 0, 0, 4, 9]) [7, 7]
      \<lparr>xreq = \<lparr>dispatched = [(Some [0x80, 0, 0, 5, 1], 5)]\<rparr>, reqid = 5, flags = 1,
        requestlen = 5, request = Some [0x80, 0, 0, 5, 1], resend_ivl = 60000,
        resend_timer = Armed 60000\<rparr>
     = Inr (ERR EAGAIN, [7, 7], 2,
      \<lparr>xreq = \<lparr>dispatched = [(Some [0x80, 0, 0, 5, 1], 5)]\<rparr>, reqid = 5, flags = 1,
        requestlen = 5, request = Some [0x80, 0, 0, 5, 1], resend_ivl = 60000,
        resend_timer = Armed 60000\<rparr>) \<and>
   sp_req_recv (Some (\<lambda>_. 0)) (Message [0x80, 0, 5]) [7, 7]
      \<lparr>xreq = \<lparr>dispatched = [(Some [0x80, 0, 0, 5, 1], 5)]\<rparr>, reqid = 5, flags = 1,
        requestlen = 5, request = Some [0x80, 0, 0, 5, 1], resend_ivl = 60000,
        resend_timer = Armed 60000\<rparr>
     = Inr (ERR EAGAIN, [7, 7], 2,
      \<lparr>xreq = \<lparr>dispatched = [(Some [0x80, 0, 0, 5, 1], 5)]\<rparr>, reqid = 5, flags = 1,
        requestlen = 5, request = Some [0x80, 0, 0, 5, 1], resend_ivl = 60000,
        resend_timer = Armed 60000\<rparr>) \<and>
   \<not> bit (sp_getl [0, 0, 0, 5, 9]) 31 \<and>
   sp_req_recv (Some (\<lambda>_. 0)) (Message [0, 0, 0, 5, 9]) [7, 7]
      \<lparr>xreq = \<lparr>dispatched = [(Some [0x80, 0, 0, 5, 1], 5)]\<rparr>, reqid = 5, flags = 1,
        requestlen = 5, request = Some [0x80, 0, 0, 5, 1], resend_ivl = 60000,
        resend_timer = Armed 60000\<rparr>
     = Inr (ERR EAGAIN, [7, 7], 2,
      \<lparr>xreq = \<lparr>dispatched = [(Some [0x80, 0, 0, 5, 1], 5)]\<rparr>, reqid = 5, flags = 1,
        requestlen = 5, request = Some [0x80, 0, 0, 5, 1], resend_ivl = 60000,
        resend_timer = Armed 60000\<rparr>)"
proof -
  let ?req = "\<lparr>xreq = \<lparr>dispatched = [(Some [0x80, 0, 0, 5, 1], 5)]\<rparr>, reqid = 5, flags = 1,
        requestlen = 5, request = Some [0x80, 0, 0, 5, 1], resend_ivl = 60000,
        resend_timer = Armed 60000\<rparr>"
  have h: "flags ?req AND SP_REQ_INPROGRESS \<noteq> 0"
    by (simp add: SP_REQ_INPROGRESS_def)
  have wrong: "sp_getl [0x80, 0, 0, 4, 9] AND 0x7fffffff \<noteq> reqid ?req"
    by (simp add: sp_getl_def)
  have clear: "\<not> bit (sp_getl [0, 0, 0, 5, 9]) 31"
    by (simp add: sp_getl_def)
  from sp_req_recv_rejects [OF h, where junk = "\<lambda>_. 0" and buf = "[7, 7]"
      and m = "[0x80, 0, 0, 4, 9]"]
    sp_req_recv_rejects [OF h, where junk = "\<lambda>_. 0" and buf = "[7, 7]"
      and m = "[0x80, 0, 5]"]
    sp_req_recv_rejects [OF h, where junk = "\<lambda>_. 0" and buf = "[7, 7]"
      and m = "[0, 0, 0, 5, 9]"]
    h wrong clear
  show ?thesis by simp
qed

text \<open>
  C3. In a run of \<^verbatim>\<open>send\<close> and \<^verbatim>\<open>recv\<close> calls that starts with correlation
  ID \<open>id0\<close> and contains \<open>N\<close> sends, the masked IDs in the tags of the buffers the
  run hands to the raw socket are \<open>id0 + 1, \<dots>, id0 + N\<close> modulo \<open>2 ^ 31\<close>, in this
  order, whatever the \<^verbatim>\<open>recv\<close> calls in between return; and a \<^verbatim>\<open>recv\<close> call
  that returns leaves the correlation ID as it was.
\<close>

theorem run_wire_ids:
  assumes "run cs req = Inr req'"
    and "sp_req_recv a inc buf r = Inr (rc, buf', len', r')"
  shows "map (\<lambda>d. unat (wire_id d))
             (drop (length (dispatched (xreq req))) (dispatched (xreq req')))
           = map (\<lambda>k. (unat (reqid req) + k) mod 2 ^ 31) [1..<Suc (sends cs)] \<and>
         reqid r' = reqid r"
proof -
  from run_dispatched [OF assms(1)] obtain ds
    where ds: "dispatched (xreq req') = dispatched (xreq req) @ ds"
      and ids: "map wire_id ds
                = map (\<lambda>k. (reqid req + of_nat k) AND 0x7fffffff) [1..<Suc (sends cs)]"
    by blast
  have "map (\<lambda>d. unat (wire_id d)) ds = map unat (map wire_id ds)"
    by simp
  also have "\<dots> = map (\<lambda>k. (unat (reqid req) + k) mod 2 ^ 31) [1..<Suc (sends cs)]"
    by (simp only: ids map_map comp_def unat_masked)
  finally show ?thesis
    using ds sp_req_recv_keeps_reqid [OF assms(2)] by simp
qed

theorem run_wire_ids_witness:
  "run [Send (Some (\<lambda>_. 0)) OK [1],
        Recv (Some (\<lambda>_. 0)) (Message [0x80, 0, 0, 5]) [0],
        Send (Some (\<lambda>_. 0)) (ERR EAGAIN) [2],
        Recv (Some (\<lambda>_. 0)) (Message [0x80, 0, 0, 0, 7, 8]) [0],
        Send (Some (\<lambda>_. 0)) OK []]
      \<lparr>xreq = \<lparr>dispatched = []\<rparr>, reqid = 0x7ffffffe, flags = 0, requestlen = 0,
        request = None, resend_ivl = 60000, resend_timer = Stopped\<rparr>
     = Inr
      \<lparr>xreq = \<lparr>dispatched = [(Some [0xff, 0xff, 0xff, 0xff, 1], 5),
                              (Some [0x80, 0, 0, 0, 2], 5), (Some [0x80, 0, 0, 1], 4)]\<rparr>,
        reqid = 1, flags = 1, requestlen = 4, request = Some [0x80, 0, 0, 1],
        resend_ivl = 60000, resend_timer = Armed 60000\<rparr> \<and>
   map (\<lambda>d. unat (wire_id d))
      [(Some [0xff, 0xff, 0xff, 0xff, 1], 5), (Some [0x80, 0, 0, 0, 2], 5),
       (Some [0x80, 0, 0, 1], 4)]
     = [2147483647, 0, 1] \<and>
   sp_req_recv (Some (\<lambda>_. 0)) (Message [0x80, 0, 0, 5, 1, 2, 3]) [9, 9]
      \<lparr>xreq = \<lparr>dispatched = [(Some [0x80, 0, 0, 5, 1], 5)]\<rparr>, reqid = 5, flags = 1,
        requestlen = 5, request = Some [0x80, 0, 0, 5, 1], resend_ivl = 60000,
        resend_timer = Armed 60000\<rparr>
     = Inr (OK, [1, 2], 3,
      \<lparr>xreq = \<lparr>dispatched = [(Some [0x80, 0, 0, 5, 1], 5)]\<rparr>, reqid = 5, flags = 0,
        requestlen = 0, request = None, resend_ivl = 60000, resend_timer = Stopped\<rparr>)"
proof -
  let ?cs = "[Send (Some (\<lambda>_. 0)) OK [1],
        Recv (Some (\<lambda>_. 0)) (Message [0x80, 0, 0, 5]) [0],
        Send (Some (\<lambda>_. 0)) (ERR EAGAIN) [2],
        Recv (Some (\<lambda>_. 0)) (Message [0x80, 0, 0, 0, 7, 8]) [0],
        Send (Some (\<lambda>_. 0)) OK []]"
  let ?req = "\<lparr>xreq = \<lparr>dispatched = []\<rparr>, reqid = 0x7ffffffe, flags = 0, requestlen = 0,
        request = None, resend_ivl = 60000, resend_timer = Stopped\<rparr>"
  let ?fin = "\<lparr>xreq = \<lparr>dispatched = [(Some [0xff, 0xff, 0xff, 0xff, 1], 5),
                              (Some [0x80, 0, 0, 0, 2], 5), (Some [0x80, 0, 0, 1], 4)]\<rparr>,
        reqid = 1, flags = 1, requestlen = 4, request = Some [0x80, 0, 0, 1],
        resend_ivl = 60000, resend_timer = Armed 60000\<rparr>"
  have h1: "run ?cs ?req = Inr ?fin"
    by (simp add: sp_req_send_value sp_req_send_cancel_state sp_req_recv_tagged
        sp_req_recv_idle SP_REQ_INPROGRESS_def tag_bytes_def sp_getl_def)
  have h2: "sp_req_recv (Some (\<lambda>_. 0)) (Message [0x80, 0, 0, 5, 1, 2, 3]) [9, 9]
      \<lparr>xreq = \<lparr>dispatched = [(Some [0x80, 0, 0, 5, 1], 5)]\<rparr>, reqid = 5, flags = 1,
        requestlen = 5, request = Some [0x80, 0, 0, 5, 1], resend_ivl = 60000,
        resend_timer = Armed 60000\<rparr>
     = Inr (OK, [1, 2], 3,
      \<lparr>xreq = \<lparr>dispatched = [(Some [0x80, 0, 0, 5, 1], 5)]\<rparr>, reqid = 5, flags = 0,
        requestlen = 0, request = None, resend_ivl = 60000, resend_timer = Stopped\<rparr>)"
    by code_simp
  have ks: "[1..<Suc (sends ?cs)] = [1, 2, 3]"
    by code_simp
  from run_wire_ids [OF h1 h2] h1 h2 show ?thesis
    by (simp only: ks) simp
qed

text \<open>
  C4. When the allocation succeeds and the raw socket answers 0 or \<^verbatim>\<open>-EAGAIN\<close>,
  \<^verbatim>\<open>sp_req_send\<close> of a buffer of \<open>len\<close> bytes returns 0, and the buffer it stores
  and hands to the raw socket has length \<open>4 + len\<close>: the four big-endian bytes of the
  new correlation ID with bit 31 set, followed by the caller's bytes unchanged,
  whatever the allocated block held before.
\<close>

theorem sp_req_send_buffer:
  assumes "answer = OK \<or> answer = ERR EAGAIN"
  shows "\<exists>req'. sp_req_send (Some junk) answer buf req = Inr (OK, req') \<and>
           request req' = Some (tag_bytes (reqid req' OR 0x80000000) @ buf) \<and>
           length (tag_bytes (reqid req' OR 0x80000000) @ buf) = 4 + length buf \<and>
           requestlen req' = 4 + length buf \<and>
           dispatched (xreq req') = dispatched (xreq req) @ [(request req', requestlen req')] \<and>
           reqid req' = (reqid req + 1) AND 0x7fffffff"
proof -
  from sp_req_send_returns [OF assms] obtain req'
    where r: "sp_req_send (Some junk) answer buf req = Inr (OK, req')" by blast
  from sp_req_send_Inr [OF r] r show ?thesis
    by (simp add: tag_bytes_def)
qed

theorem sp_req_send_buffer_witness:
  "(ERR EAGAIN = OK \<or> ERR EAGAIN = ERR EAGAIN) \<and>
   (\<exists>req'. sp_req_send (Some (\<lambda>_. 0)) (ERR EAGAIN) [0x70, 0x69]
             \<lparr>xreq = \<lparr>dispatched = []\<rparr>, reqid = 0x7ffffffe, flags = 0, requestlen = 0,
        request = None, resend_ivl = 60000, resend_timer = Stopped\<rparr> = Inr (OK, req') \<and>
      request req' = Some [0xff, 0xff, 0xff, 0xff, 0x70, 0x69] \<and>
      requestlen req' = 6 \<and>
      dispatched (xreq req') = [(Some [0xff, 0xff, 0xff, 0xff, 0x70, 0x69], 6)] \<and>
      reqid req' = 0x7fffffff)"
proof -
  have h: "ERR EAGAIN = OK \<or> ERR EAGAIN = ERR EAGAIN"
    by simp
  from sp_req_send_buffer [OF h, where junk = "\<lambda>_. 0" and buf = "[0x70, 0x69]"
      and req = "\<lparr>xreq = \<lparr>dispatched = []\<rparr>, reqid = 0x7ffffffe, flags = 0, requestlen = 0,
        request = None, resend_ivl = 60000, resend_timer = Stopped\<rparr>"]
  show ?thesis by (auto simp: tag_bytes_def)
qed

text \<open>
  C5. When a request is in progress and the raw socket delivers a message of at least
  four bytes whose tag has bit 31 set and the current correlation ID,
  \<^verbatim>\<open>sp_req_recv\<close> returns 0; the payload being the bytes after the tag, exactly the
  first \<open>min max_len payload_len\<close> bytes of the caller's buffer are replaced by the
  first bytes of the payload, and \<^verbatim>\<open>*len\<close> is the full length of the payload, also
  when it exceeds \<open>max_len\<close>.
\<close>

theorem sp_req_recv_truncates:
  assumes "flags req AND SP_REQ_INPROGRESS \<noteq> 0"
    and "4 \<le> length m"
    and "bit (sp_getl m) 31"
    and "sp_getl m AND 0x7fffffff = reqid req"
  shows "\<exists>req'. sp_req_recv (Some junk) (Message m) buf req =
           Inr (OK,
                take (min (length buf) (length (drop 4 m))) (drop 4 m) @
                  drop (min (length buf) (length (drop 4 m))) buf,
                length (drop 4 m),
                req')"
proof -
  have "sp_getl m AND 0x80000000 \<noteq> 0"
    using assms(3) by (simp add: and_bit31)
  then show ?thesis
    using assms(4) by (simp add: sp_req_recv_tagged [OF assms(1,2)])
qed

theorem sp_req_recv_truncates_witness:
  "flags \<lparr>xreq = \<lparr>dispatched = [(Some [0x80, 0, 0, 5, 1], 5)]\<rparr>, reqid = 5, flags = 1,
        requestlen = 5, request = Some [0x80, 0, 0, 5, 1], resend_ivl = 60000,
        resend_timer = Armed 60000\<rparr> AND SP_REQ_INPROGRESS \<noteq> 0 \<and>
   4 \<le> length [0x80, 0, 0, 5, 1, 2, 3 :: byte] \<and>
   bit (sp_getl [0x80, 0, 0, 5, 1, 2, 3]) 31 \<and>
   sp_getl [0x80, 0, 0, 5, 1, 2, 3] AND 0x7fffffff = 5 \<and>
   (\<exists>req'. sp_req_recv (Some (\<lambda>_. 0)) (Message [0x80, 0, 0, 5, 1, 2, 3]) [9, 9]
      \<lparr>xreq = \<lparr>dispatched = [(Some [0x80, 0, 0, 5, 1], 5)]\<rparr>, reqid = 5, flags = 1,
        requestlen = 5, request = Some [0x80, 0, 0, 5, 1], resend_ivl = 60000,
        resend_timer = Armed 60000\<rparr>
     = Inr (OK, [1, 2], 3, req')) \<and>
   (\<exists>req'. sp_req_recv (Some (\<lambda>_. 0)) (Message [0x80, 0, 0, 5, 1, 2, 3]) [9, 9, 9, 9, 9]
      \<lparr>xreq = \<lparr>dispatched = [(Some [0x80, 0, 0, 5, 1], 5)]\<rparr>, reqid = 5, flags = 1,
        requestlen = 5, request = Some [0x80, 0, 0, 5, 1], resend_ivl = 60000,
        resend_timer = Armed 60000\<rparr>
     = Inr (OK, [1, 2, 3, 9, 9], 3, req'))"
proof -
  let ?req = "\<lparr>xreq = \<lparr>dispatched = [(Some [0x80, 0, 0, 5, 1], 5)]\<rparr>, reqid = 5, flags = 1,
        requestlen = 5, request = Some [0x80, 0, 0, 5, 1], resend_ivl = 60000,
        resend_timer = Armed 60000\<rparr>"
  have h1: "flags ?req AND SP_REQ_INPROGRESS \<noteq> 0"
    by (simp add: SP_REQ_INPROGRESS_def)
  have h2: "4 \<le> length [0x80, 0, 0, 5, 1, 2, 3 :: byte]"
    by simp
  have h3: "bit (sp_getl [0x80, 0, 0, 5, 1, 2, 3]) 31"
    by (simp add: sp_getl_def)
  have h4: "sp_getl [0x80, 0, 0, 5, 1, 2, 3] AND 0x7fffffff = reqid ?req"
    by (simp add: sp_getl_def)
  from sp_req_recv_truncates [OF h1 h2 h3 h4, where junk = "\<lambda>_. 0" and buf = "[9, 9]"]
    sp_req_recv_truncates [OF h1 h2 h3 h4, where junk = "\<lambda>_. 0" and buf = "[9, 9, 9, 9, 9]"]
    h1 h3 h4
  show ?thesis by (simp add: numeral_3_eq_3)
qed

text \<open>
  C6. With no request in progress \<^verbatim>\<open>sp_req_recv\<close> returns \<^verbatim>\<open>-EFSM\<close> at once,
  whatever the collaborators would answer, and changes nothing; and after a
  \<^verbatim>\<open>sp_req_recv\<close> that returned 0, the next \<^verbatim>\<open>sp_req_recv\<close> on the resulting
  socket returns \<^verbatim>\<open>-EFSM\<close>.
\<close>

theorem sp_req_recv_idle_efsm:
  "(flags req AND SP_REQ_INPROGRESS = 0 \<longrightarrow>
      sp_req_recv a inc buf req = Inr (ERR EFSM, buf, length buf, req)) \<and>
   (sp_req_recv a inc buf req = Inr (OK, buf', len', req') \<longrightarrow>
      sp_req_recv a_again inc_again buf_again req' = Inr (ERR EFSM, buf_again, length buf_again, req'))"
  using sp_req_recv_idle [of req a inc buf] sp_req_recv_idle [of req' a_again inc_again buf_again]
    sp_req_recv_OK_idle [of a inc buf req buf' len' req']
  by blast

theorem sp_req_recv_idle_efsm_witness:
  "flags \<lparr>xreq = \<lparr>dispatched = []\<rparr>, reqid = 0x7ffffffe, flags = 0, requestlen = 0,
        request = None, resend_ivl = 60000, resend_timer = Stopped\<rparr> AND SP_REQ_INPROGRESS = 0 \<and>
   sp_req_recv None (Message [0x80, 0, 0, 5, 1]) [9, 9]
      \<lparr>xreq = \<lparr>dispatched = []\<rparr>, reqid = 0x7ffffffe, flags = 0, requestlen = 0,
        request = None, resend_ivl = 60000, resend_timer = Stopped\<rparr>
     = Inr (ERR EFSM, [9, 9], 2,
      \<lparr>xreq = \<lparr>dispatched = []\<rparr>, reqid = 0x7ffffffe, flags = 0, requestlen = 0,
        request = None, resend_ivl = 60000, resend_timer = Stopped\<rparr>) \<and>
   sp_req_recv (Some (\<lambda>_. 0)) (Message [0x80, 0, 0, 5, 1, 2, 3]) [9, 9]
      \<lparr>xreq = \<lparr>dispatched = [(Some [0x80, 0, 0, 5, 1], 5)]\<rparr>, reqid = 5, flags = 1,
        requestlen = 5, request = Some [0x80, 0, 0, 5, 1], resend_ivl = 60000,
        resend_timer = Armed 60000\<rparr>
     = Inr (OK, [1, 2], 3,
      \<lparr>xreq = \<lparr>dispatched = [(Some [0x80, 0, 0, 5, 1], 5)]\<rparr>, reqid = 5, flags = 0,
        requestlen = 0, request = None, resend_ivl = 60000, resend_timer = Stopped\<rparr>) \<and>
   sp_req_recv (Some (\<lambda>_. 0)) (Message [0x80, 0, 0, 5, 1, 2, 3]) [9, 9]
      \<lparr>xreq = \<lparr>dispatched = [(Some [0x80, 0, 0, 5, 1], 5)]\<rparr>, reqid = 5, flags = 0,
        requestlen = 0, request = None, resend_ivl = 60000, resend_timer = Stopped\<rparr>
     = Inr (ERR EFSM, [9, 9], 2,
      \<lparr>xreq = \<lparr>dispatched = [(Some [0x80, 0, 0, 5, 1], 5)]\<rparr>, reqid = 5, flags = 0,
        requestlen = 0, request = None, resend_ivl = 60000, resend_timer = Stopped\<rparr>)"
proof -
  let ?idle = "\<lparr>xreq = \<lparr>dispatched = []\<rparr>, reqid = 0x7ffffffe, flags = 0, requestlen = 0,
        request = None, resend_ivl = 60000, resend_timer = Stopped\<rparr>"
  let ?busy = "\<lparr>xreq = \<lparr>dispatched = [(Some [0x80, 0, 0, 5, 1], 5)]\<rparr>, reqid = 5, flags = 1,
        requestlen = 5, request = Some [0x80, 0, 0, 5, 1], resend_ivl = 60000,
        resend_timer = Armed 60000\<rparr>"
  let ?done = "\<lparr>xreq = \<lparr>dispatched = [(Some [0x80, 0, 0, 5, 1], 5)]\<rparr>, reqid = 5, flags = 0,
        requestlen = 0, request = None, resend_ivl = 60000, resend_timer = Stopped\<rparr>"
  have h1: "flags ?idle AND SP_REQ_INPROGRESS = 0"
    by simp
  have h2: "sp_req_recv (Some (\<lambda>_. 0)) (Message [0x80, 0, 0, 5, 1, 2, 3]) [9, 9] ?busy
            = Inr (OK, [1, 2], 3, ?done)"
    by code_simp
  from sp_req_recv_idle_efsm [where req = ?idle and a = None
      and inc = "Message [0x80, 0, 0, 5, 1]" and buf = "[9, 9]"
      and req' = ?idle and a_again = None and inc_again = NoMessage and buf_again = "[]"
      and buf' = "[]" and len' = 0]
    sp_req_recv_idle_efsm [where req = ?busy and a = "Some (\<lambda>_. 0)"
      and inc = "Message [0x80, 0, 0, 5, 1, 2, 3]" and buf = "[9, 9]"
      and buf' = "[1, 2]" and len' = 3 and req' = ?done
      and a_again = "Some (\<lambda>_. 0)" and inc_again = "Message [0x80, 0, 0, 5, 1, 2, 3]" and buf_again = "[9, 9]"]
    h1 h2
  show ?thesis by simp
qed

text \<open>
  C7. When the resend callback fires while a request is in progress and the raw socket
  answers 0 or \<^verbatim>\<open>-EAGAIN\<close>, the stored request pointer and length themselves are
  handed to the raw socket once more and the timer is armed with the resend interval;
  the correlation ID, the stored request, its length, the flags and the interval are
  unchanged. When it fires while no request is in progress, the assertion fails.
\<close>

theorem sp_req_resend_routine_effect:
  "(flags req AND SP_REQ_INPROGRESS \<noteq> 0 \<and> (answer = OK \<or> answer = ERR EAGAIN) \<longrightarrow>
      sp_req_resend_routine answer req =
        Inr (req\<lparr>xreq := (xreq req)\<lparr>dispatched :=
                    dispatched (xreq req) @ [(request req, requestlen req)]\<rparr>,
                 resend_timer := Armed (resend_ivl req)\<rparr>)) \<and>
   (flags req AND SP_REQ_INPROGRESS = 0 \<longrightarrow>
      sp_req_resend_routine answer req = Inl sp_assert_failed)"
  by (cases req)
     (auto simp: sp_req_resend_routine_def sp_xreq_send_def sp_sockbase_timer_start_def)

theorem sp_req_resend_routine_effect_witness:
  "flags \<lparr>xreq = \<lparr>dispatched = [(Some [0x80, 0, 0, 5, 1], 5)]\<rparr>, reqid = 5, flags = 1,
        requestlen = 5, request = Some [0x80, 0, 0, 5, 1], resend_ivl = 60000,
        resend_timer = Armed 60000\<rparr> AND SP_REQ_INPROGRESS \<noteq> 0 \<and>
   sp_req_resend_routine (ERR EAGAIN)
      \<lparr>xreq = \<lparr>dispatched = [(Some [0x80, 0, 0, 5, 1], 5)]\<rparr>, reqid = 5, flags = 1,
        requestlen = 5, request = Some [0x80, 0, 0, 5, 1], resend_ivl = 60000,
        resend_timer = Armed 60000\<rparr>
     = Inr
      \<lparr>xreq = \<lparr>dispatched = [(Some [0x80, 0, 0, 5, 1], 5), (Some [0x80, 0, 0, 5, 1], 5)]\<rparr>,
        reqid = 5, flags = 1, requestlen = 5, request = Some [0x80, 0, 0, 5, 1],
        resend_ivl = 60000, resend_timer = Armed 60000\<rparr> \<and>
   flags \<lparr>xreq = \<lparr>dispatched = []\<rparr>, reqid = 0x7ffffffe, flags = 0, requestlen = 0,
        request = None, resend_ivl = 60000, resend_timer = Stopped\<rparr> AND SP_REQ_INPROGRESS = 0 \<and>
   sp_req_resend_routine OK
      \<lparr>xreq = \<lparr>dispatched = []\<rparr>, reqid = 0x7ffffffe, flags = 0, requestlen = 0,
        request = None, resend_ivl = 60000, resend_timer = Stopped\<rparr>
     = Inl sp_assert_failed"
proof -
  let ?busy = "\<lparr>xreq = \<lparr>dispatched = [(Some [0x80, 0, 0, 5, 1], 5)]\<rparr>, reqid = 5, flags = 1,
        requestlen = 5, request = Some [0x80, 0, 0, 5, 1], resend_ivl = 60000,
        resend_timer = Armed 60000\<rparr>"
  let ?idle = "\<lparr>xreq = \<lparr>dispatched = []\<rparr>, reqid = 0x7ffffffe, flags = 0, requestlen = 0,
        request = None, resend_ivl = 60000, resend_timer = Stopped\<rparr>"
  have h1: "flags ?busy AND SP_REQ_INPROGRESS \<noteq> 0"
    by (simp add: SP_REQ_INPROGRESS_def)
  have h2: "flags ?idle AND SP_REQ_INPROGRESS = 0"
    by simp
  from sp_req_resend_routine_effect [where req = ?busy and answer = "ERR EAGAIN"]
    sp_req_resend_routine_effect [where req = ?idle and answer = OK] h1 h2
  show ?thesis by simp
qed

text \<open>
  C8 as stated fails for \<^verbatim>\<open>sp_req_getopt\<close>: with an option length of 8, which is
  not the size of an \<^verbatim>\<open>int\<close>, the call succeeds.
\<close>

theorem sp_req_getopt_counterexample:
  "8 \<noteq> sizeof_int \<and>
   sp_req_getopt 1 1 0 8
     \<lparr>xreq = sp_xreq_init, reqid = 0, flags = 0, requestlen = 0, request = None,
      resend_ivl = 60000, resend_timer = Stopped\<rparr> = (OK, 60000, 4)"
  by (simp add: sp_req_getopt_def sizeof_int_def)

text \<open>
  C8, amended. On the resend-interval option, \<^verbatim>\<open>sp_req_setopt\<close> succeeds and
  stores the value when the option length is 4, and fails with \<^verbatim>\<open>-EINVAL\<close>
  otherwise; \<^verbatim>\<open>sp_req_getopt\<close> fails with \<^verbatim>\<open>-EINVAL\<close> when the length given
  is less than 4, and otherwise succeeds, returning the interval and the length 4. On
  any other option both fail with \<^verbatim>\<open>-ENOPROTOOPT\<close>. After a successful set, a get
  with a length of at least 4 returns the value set.
\<close>

theorem sp_req_options:
  "sp_req_setopt ivl ivl optval optvallen req =
     (if optvallen = 4 then (OK, req\<lparr>resend_ivl := optval\<rparr>) else (ERR EINVAL, req)) \<and>
   sp_req_getopt ivl ivl optval optvallen req =
     (if optvallen < 4 then (ERR EINVAL, optval, optvallen) else (OK, resend_ivl req, 4)) \<and>
   (opt \<noteq> ivl \<longrightarrow>
      sp_req_setopt ivl opt optval optvallen req = (ERR ENOPROTOOPT, req) \<and>
      sp_req_getopt ivl opt optval optvallen req = (ERR ENOPROTOOPT, optval, optvallen)) \<and>
   (4 \<le> optvallen' \<longrightarrow>
      sp_req_getopt ivl ivl optval' optvallen' (snd (sp_req_setopt ivl ivl optval 4 req))
        = (OK, optval, 4))"
  by (simp add: sp_req_setopt_def sp_req_getopt_def sizeof_int_def)

theorem sp_req_options_witness:
  "(2 :: int) \<noteq> 1 \<and> (4 :: nat) \<le> 8 \<and>
   sp_req_setopt 1 1 250 2
      \<lparr>xreq = \<lparr>dispatched = []\<rparr>, reqid = 0x7ffffffe, flags = 0, requestlen = 0,
        request = None, resend_ivl = 60000, resend_timer = Stopped\<rparr>
     = (ERR EINVAL,
      \<lparr>xreq = \<lparr>dispatched = []\<rparr>, reqid = 0x7ffffffe, flags = 0, requestlen = 0,
        request = None, resend_ivl = 60000, resend_timer = Stopped\<rparr>) \<and>
   sp_req_getopt 1 1 0 2
      \<lparr>xreq = \<lparr>dispatched = []\<rparr>, reqid = 0x7ffffffe, flags = 0, requestlen = 0,
        request = None, resend_ivl = 60000, resend_timer = Stopped\<rparr>
     = (ERR EINVAL, 0, 2) \<and>
   sp_req_setopt 1 2 250 4
      \<lparr>xreq = \<lparr>dispatched = []\<rparr>, reqid = 0x7ffffffe, flags = 0, requestlen = 0,
        request = None, resend_ivl = 60000, resend_timer = Stopped\<rparr>
     = (ERR ENOPROTOOPT,
      \<lparr>xreq = \<lparr>dispatched = []\<rparr>, reqid = 0x7ffffffe, flags = 0, requestlen = 0,
        request = None, resend_ivl = 60000, resend_timer = Stopped\<rparr>) \<and>
   sp_req_getopt 1 2 0 4
      \<lparr>xreq = \<lparr>dispatched = []\<rparr>, reqid = 0x7ffffffe, flags = 0, requestlen = 0,
        request = None, resend_ivl = 60000, resend_timer = Stopped\<rparr>
     = (ERR ENOPROTOOPT, 0, 4) \<and>
   sp_req_getopt 1 1 0 8
      (snd (sp_req_setopt 1 1 250 4
      \<lparr>xreq = \<lparr>dispatched = []\<rparr>, reqid = 0x7ffffffe, flags = 0, requestlen = 0,
        request = None, resend_ivl = 60000, resend_timer = Stopped\<rparr>))
     = (OK, 250, 4)"
proof -
  let ?req = "\<lparr>xreq = \<lparr>dispatched = []\<rparr>, reqid = 0x7ffffffe, flags = 0, requestlen = 0,
        request = None, resend_ivl = 60000, resend_timer = Stopped\<rparr>"
  from sp_req_options [where ivl = 1 and opt = 2 and optval = 250 and optvallen = 2
      and req = ?req and optval' = 0 and optvallen' = 8]
    sp_req_options [where ivl = 1 and opt = 2 and optval = 0 and optvallen = 2
      and req = ?req and optval' = 0 and optvallen' = 8]
    sp_req_options [where ivl = 1 and opt = 2 and optval = 250 and optvallen = 4
      and req = ?req and optval' = 0 and optvallen' = 8]
    sp_req_options [where ivl = 1 and opt = 2 and optval = 0 and optvallen = 4
      and req = ?req and optval' = 0 and optvallen' = 8]
  show ?thesis by simp
qed

text \<open>
  C9. After \<^verbatim>\<open>sp_req_init\<close> the correlation ID is the value drawn from the
  random source masked to 31 bits, so bit 31 is clear; the in-progress flag is clear;
  the stored request is the null pointer with length 0; the resend interval is 60000.
\<close>

theorem sp_req_init_state:
  "reqid (sp_req_init random self) = random AND 0x7fffffff \<and>
   \<not> bit (reqid (sp_req_init random self)) 31 \<and>
   unat (reqid (sp_req_init random self)) = unat random mod 2 ^ 31 \<and>
   flags (sp_req_init random self) = 0 \<and>
   flags (sp_req_init random self) AND SP_REQ_INPROGRESS = 0 \<and>
   request (sp_req_init random self) = None \<and>
   requestlen (sp_req_init random self) = 0 \<and>
   resend_ivl (sp_req_init random self) = SP_REQ_DEFAULT_RESEND_IVL \<and>
   sint (resend_ivl (sp_req_init random self)) = 60000"
proof -
  have id: "reqid (sp_req_init random self) = random AND 0x7fffffff"
    by (simp add: sp_req_init_def)
  have "unat (random AND 0x7fffffff) = unat random mod 2 ^ 31"
    using unat_masked [of random 0] by simp
  with id masked_bit31 [of random] show ?thesis
    by (simp add: sp_req_init_def SP_REQ_DEFAULT_RESEND_IVL_def)
qed

text \<open>
  C10. \<^verbatim>\<open>sp_req_setopt\<close> of the resend interval with length 4 succeeds for every
  value of an \<^verbatim>\<open>int\<close>, zero and the negative ones included, and stores it as it
  is; the next \<^verbatim>\<open>sp_req_send\<close> that returns, and the next resend callback that
  returns, arm the timer with exactly this value.
\<close>

theorem sp_req_setopt_any_value:
  assumes "answer = OK \<or> answer = ERR EAGAIN"
  shows "sp_req_setopt ivl ivl optval 4 req = (OK, req\<lparr>resend_ivl := optval\<rparr>) \<and>
         (\<exists>req'. sp_req_send (Some junk) answer buf (snd (sp_req_setopt ivl ivl optval 4 req))
                  = Inr (OK, req') \<and> resend_timer req' = Armed optval) \<and>
         (flags req AND SP_REQ_INPROGRESS \<noteq> 0 \<longrightarrow>
           (\<exists>req'. sp_req_resend_routine answer (snd (sp_req_setopt ivl ivl optval 4 req))
                  = Inr req' \<and> resend_timer req' = Armed optval))"
proof -
  have set: "sp_req_setopt ivl ivl optval 4 req = (OK, req\<lparr>resend_ivl := optval\<rparr>)"
    by (simp add: sp_req_setopt_def sizeof_int_def)
  from sp_req_send_returns [OF assms] obtain req'
    where s: "sp_req_send (Some junk) answer buf (req\<lparr>resend_ivl := optval\<rparr>) = Inr (OK, req')"
    by blast
  from sp_req_send_Inr [OF s] have "resend_timer req' = Armed optval"
    by simp
  with s set have send: "\<exists>req'. sp_req_send (Some junk) answer buf
        (snd (sp_req_setopt ivl ivl optval 4 req)) = Inr (OK, req') \<and> resend_timer req' = Armed optval"
    by simp
  have "flags req AND SP_REQ_INPROGRESS \<noteq> 0 \<longrightarrow>
           (\<exists>req'. sp_req_resend_routine answer (snd (sp_req_setopt ivl ivl optval 4 req))
                  = Inr req' \<and> resend_timer req' = Armed optval)"
    using assms
    by (auto simp: set sp_req_resend_routine_def sp_xreq_send_def sp_sockbase_timer_start_def)
  with set send show ?thesis by blast
qed

theorem sp_req_setopt_any_value_witness:
  "(OK = OK \<or> OK = ERR EAGAIN) \<and>
   sint (- 5 :: c_int) = - 5 \<and>
   sp_req_setopt 1 1 (- 5)  4
      \<lparr>xreq = \<lparr>dispatched = [(Some [0x80, 0, 0, 5, 1], 5)]\<rparr>, reqid = 5, flags = 1,
        requestlen = 5, request = Some [0x80, 0, 0, 5, 1], resend_ivl = 60000,
        resend_timer = Armed 60000\<rparr>
     = (OK, \<lparr>xreq = \<lparr>dispatched = [(Some [0x80, 0, 0, 5, 1], 5)]\<rparr>, reqid = 5, flags = 1,
        requestlen = 5, request = Some [0x80, 0, 0, 5, 1], resend_ivl = 60000,
        resend_timer = Armed 60000\<rparr>\<lparr>resend_ivl := - 5\<rparr>) \<and>
   (\<exists>req'. sp_req_send (Some (\<lambda>_. 0)) OK [1]
        (snd (sp_req_setopt 1 1 (- 5) 4
      \<lparr>xreq = \<lparr>dispatched = [(Some [0x80, 0, 0, 5, 1], 5)]\<rparr>, reqid = 5, flags = 1,
        requestlen = 5, request = Some [0x80, 0, 0, 5, 1], resend_ivl = 60000,
        resend_timer = Armed 60000\<rparr>))
      = Inr (OK, req') \<and> resend_timer req' = Armed (- 5)) \<and>
   flags \<lparr>xreq = \<lparr>dispatched = [(Some [0x80, 0, 0, 5, 1], 5)]\<rparr>, reqid = 5, flags = 1,
        requestlen = 5, request = Some [0x80, 0, 0, 5, 1], resend_ivl = 60000,
        resend_timer = Armed 60000\<rparr> AND SP_REQ_INPROGRESS \<noteq> 0 \<and>
   (\<exists>req'. sp_req_resend_routine OK
        (snd (sp_req_setopt 1 1 0 4
      \<lparr>xreq = \<lparr>dispatched = [(Some [0x80, 0, 0, 5, 1], 5)]\<rparr>, reqid = 5, flags = 1,
        requestlen = 5, request = Some [0x80, 0, 0, 5, 1], resend_ivl = 60000,
        resend_timer = Armed 60000\<rparr>))
      = Inr req' \<and> resend_timer req' = Armed 0)"
proof -
  let ?req = "\<lparr>xreq = \<lparr>dispatched = [(Some [0x80, 0, 0, 5, 1], 5)]\<rparr>, reqid = 5, flags = 1,
        requestlen = 5, request = Some [0x80, 0, 0, 5, 1], resend_ivl = 60000,
        resend_timer = Armed 60000\<rparr>"
  have h: "OK = OK \<or> OK = ERR EAGAIN"
    by simp
  have busy: "flags ?req AND SP_REQ_INPROGRESS \<noteq> 0"
    by (simp add: SP_REQ_INPROGRESS_def)
  from sp_req_setopt_any_value [OF h, where ivl = 1 and optval = "- 5" and req = ?req
      and junk = "\<lambda>_. 0" and buf = "[1]"]
    sp_req_setopt_any_value [OF h, where ivl = 1 and optval = 0 and req = ?req
      and junk = "\<lambda>_. 0" and buf = "[1]"]
    busy
  show ?thesis by auto
qed

end
